theory Spec2Isabelle
  imports Complex_Main "HOL-Library.AList"
begin

section \<open>Common modelling conventions\<close>

text \<open>
  Python \<open>float\<close> values are modelled as \<open>real\<close> (rounding, infinities and NaN are not
  modelled, except where a pandas column may hold NaN), Python \<open>int\<close> as \<open>int\<close>.  A
  \<open>datetime\<close> is the number of microseconds since the epoch (UTC).  Every reading of the
  clock (\<open>now_utc()\<close>, \<open>datetime.utcnow()\<close>) and every random draw (\<open>uuid.uuid4()\<close>,
  \<open>random.gauss\<close>) is an explicit argument of the function that makes it.  Calls to the
  logger have no effect on the state and are left out.

  An f-string is kept as the list of its parts: the literal text and the values that are
  formatted into it, each tagged with its format specification.  The empty string is \<open>[]\<close>.
\<close>

type_synonym datetime = int

definition date :: "datetime \<Rightarrow> int" where
  "date t = t div 86400000000"

definition timedelta_minutes :: "int \<Rightarrow> int" where
  "timedelta_minutes n = n * 60000000"

definition timedelta_hours :: "int \<Rightarrow> int" where
  "timedelta_hours n = n * 3600000000"

definition timedelta_days :: "int \<Rightarrow> int" where
  "timedelta_days n = n * 86400000000"

datatype fpart =
    Lit string
  | FInt int
  | FFloat real
  | FPct2 real

type_synonym fstring = "fpart list"

datatype py_error = ZeroDivisionError | IndexError | TypeError

section \<open>risk/circuit\_breakers.py\<close>

record CircuitBreakerState =
  triggered :: bool
  trigger_time :: "datetime option"
  trigger_reason :: fstring
  can_resume_at :: "datetime option"

record CircuitBreakerManager =
  max_daily_drawdown :: real
  max_failed_orders_per_hour :: int
  cooldown_minutes :: int
  state :: CircuitBreakerState
  failed_orders_history :: "datetime list"
  daily_high_equity :: "real option"
  last_reset_date :: "datetime option"

definition untriggered :: CircuitBreakerState where
  "untriggered = \<lparr>triggered = False, trigger_time = None, trigger_reason = [],
                   can_resume_at = None\<rparr>"

text \<open>\<open>CircuitBreakerManager.__init__\<close>; the defaults are 0.04, 10 and 60.\<close>

definition init_manager :: "real \<Rightarrow> int \<Rightarrow> int \<Rightarrow> CircuitBreakerManager" where
  "init_manager dd fails cool =
     \<lparr>max_daily_drawdown = dd, max_failed_orders_per_hour = fails, cooldown_minutes = cool,
      state = untriggered, failed_orders_history = [], daily_high_equity = None,
      last_reset_date = None\<rparr>"

text \<open>\<open>_trigger(reason)\<close>, with the clock reading \<open>now\<close> it makes.\<close>

definition trigger :: "CircuitBreakerManager \<Rightarrow> datetime \<Rightarrow> fstring \<Rightarrow> CircuitBreakerManager" where
  "trigger m now reason =
     (if triggered (state m) then m
      else m\<lparr>state := (state m)\<lparr>triggered := True, trigger_time := Some now,
                 trigger_reason := reason,
                 can_resume_at := Some (now + timedelta_minutes (cooldown_minutes m))\<rparr>\<rparr>)"

definition manual_kill_switch :: "CircuitBreakerManager \<Rightarrow> datetime \<Rightarrow> fstring \<Rightarrow> CircuitBreakerManager" where
  "manual_kill_switch m now reason = trigger m now reason"

text \<open>
  Lines 71 to 79 of \<open>check_drawdown\<close>: the day roll-over followed by the running maximum.
  \<open>roll_day\<close> is the manager after the first \<open>if\<close>, \<open>new_daily_high\<close> the value stored
  by the second.
\<close>

definition roll_day :: "CircuitBreakerManager \<Rightarrow> datetime \<Rightarrow> real \<Rightarrow> CircuitBreakerManager" where
  "roll_day m now starting_equity =
     (if (case last_reset_date m of None \<Rightarrow> True | Some d \<Rightarrow> date now > date d)
      then m\<lparr>daily_high_equity := Some starting_equity, last_reset_date := Some now\<rparr>
      else m)"

definition new_daily_high :: "CircuitBreakerManager \<Rightarrow> datetime \<Rightarrow> real \<Rightarrow> real \<Rightarrow> real" where
  "new_daily_high m now current_equity starting_equity =
     (case daily_high_equity (roll_day m now starting_equity) of
        None \<Rightarrow> max starting_equity current_equity
      | Some h \<Rightarrow> max h current_equity)"

text \<open>
  \<open>check_drawdown(current_equity, starting_equity)\<close>.  \<open>now\<close> is the clock reading of the
  method, \<open>now_t\<close> the one made by \<open>_trigger\<close>.  The division raises when the daily
  high is zero; the high-water mark has been stored by then.
\<close>

definition check_drawdown ::
  "CircuitBreakerManager \<Rightarrow> datetime \<Rightarrow> datetime \<Rightarrow> real \<Rightarrow> real
     \<Rightarrow> (py_error + bool) \<times> CircuitBreakerManager" where
  "check_drawdown m now now_t current_equity starting_equity =
     (if triggered (state m) then (Inr True, m)
      else
        let high = new_daily_high m now current_equity starting_equity;
            m1 = (roll_day m now starting_equity)\<lparr>daily_high_equity := Some high\<rparr>
        in if high = 0 then (Inl ZeroDivisionError, m1)
           else
             let drawdown = (high - current_equity) / high
             in if drawdown \<ge> max_daily_drawdown m
                then (Inr True,
                      trigger m1 now_t
                        [Lit ''Max daily drawdown exceeded: '', FPct2 drawdown, Lit '' >= '',
                         FPct2 (max_daily_drawdown m)])
                else (Inr False, m1))"

text \<open>\<open>record_failed_order()\<close>, with its own clock reading and the one of \<open>_trigger\<close>.\<close>

definition record_failed_order ::
  "CircuitBreakerManager \<Rightarrow> datetime \<Rightarrow> datetime \<Rightarrow> bool \<times> CircuitBreakerManager" where
  "record_failed_order m now now_t =
     (if triggered (state m) then (True, m)
      else
        let appended = failed_orders_history m @ [now];
            cutoff = now - timedelta_hours 1;
            kept = filter (\<lambda>t. t > cutoff) appended;
            m1 = m\<lparr>failed_orders_history := kept\<rparr>
        in if int (length kept) \<ge> max_failed_orders_per_hour m
           then (True, trigger m1 now_t
                         [Lit ''Too many failed orders: '', FInt (int (length kept)),
                          Lit '' in last hour''])
           else (False, m1))"

text \<open>\<open>can_trade()\<close>; the clock is read only to log a warning.\<close>

definition can_trade :: "CircuitBreakerManager \<Rightarrow> datetime \<Rightarrow> bool" where
  "can_trade m now = (if \<not> triggered (state m) then True else False)"

text \<open>\<open>reset(force)\<close>.  A \<open>datetime\<close> is always truthy, so \<open>self.state.can_resume_at and ...\<close>
  tests for \<open>None\<close>.\<close>

definition reset :: "CircuitBreakerManager \<Rightarrow> datetime \<Rightarrow> bool \<Rightarrow> CircuitBreakerManager" where
  "reset m now force =
     (if \<not> triggered (state m) then m
      else if \<not> force \<and> (case can_resume_at (state m) of None \<Rightarrow> False | Some r \<Rightarrow> now < r)
      then m
      else m\<lparr>state := untriggered, failed_orders_history := []\<rparr>)"

section \<open>db/models.py and db/crud.py\<close>

datatype OrderStatus =
  PENDING | OPEN | FILLED | PARTIALLY_FILLED | CANCELLED | REJECTED | EXPIRED

text \<open>
  A row of the \<open>orders\<close> table.  The columns carry the prefix \<open>o_\<close> because \<open>OrderResult\<close>
  below has fields of the same names.  \<open>order_id\<close> is declared unique, so the table is a
  map from \<open>order_id\<close> to the row, and \<open>get_order\<close> (\<open>scalar_one_or_none\<close>) is the lookup.
\<close>

record Order =
  o_symbol :: string
  o_status :: OrderStatus
  o_quantity :: real
  o_filled_quantity :: "real option"
  o_average_fill_price :: "real option"
  o_created_at :: datetime
  o_updated_at :: datetime
  o_filled_at :: "datetime option"
  o_cancelled_at :: "datetime option"

type_synonym orders_table = "string \<rightharpoonup> Order"

definition get_order :: "orders_table \<Rightarrow> string \<Rightarrow> Order option" where
  "get_order db oid = db oid"

text \<open>
  \<open>update_order_status(db, order_id, status, filled_quantity, average_fill_price)\<close>;
  \<open>now_u\<close> and \<open>now_s\<close> are the two readings of \<open>datetime.utcnow()\<close>.
\<close>

definition update_order_status ::
  "orders_table \<Rightarrow> string \<Rightarrow> OrderStatus \<Rightarrow> real option \<Rightarrow> real option \<Rightarrow> datetime \<Rightarrow> datetime
     \<Rightarrow> Order option \<times> orders_table" where
  "update_order_status db oid new_status filled_qty avg_price now_u now_s =
     (case get_order db oid of
        None \<Rightarrow> (None, db)
      | Some order \<Rightarrow>
          let o1 = order\<lparr>o_status := new_status, o_updated_at := now_u\<rparr>;
              o2 = (case filled_qty of None \<Rightarrow> o1 | Some q \<Rightarrow> o1\<lparr>o_filled_quantity := Some q\<rparr>);
              o3 = (case avg_price of None \<Rightarrow> o2 | Some p \<Rightarrow> o2\<lparr>o_average_fill_price := Some p\<rparr>);
              o4 = (if new_status = FILLED then o3\<lparr>o_filled_at := Some now_s\<rparr>
                    else if new_status = CANCELLED then o3\<lparr>o_cancelled_at := Some now_s\<rparr>
                    else o3)
          in (Some o4, db(oid \<mapsto> o4)))"

text \<open>
  The order state machine as the specification words it (section 4.7): the permitted
  transitions and the terminal states.  Nothing in \<open>db/crud.py\<close> or \<open>db/models.py\<close>
  mentions either.
\<close>

fun spec_transition :: "OrderStatus \<Rightarrow> OrderStatus \<Rightarrow> bool" where
  "spec_transition PENDING t = (t = OPEN \<or> t = REJECTED)"
| "spec_transition OPEN t = (t = FILLED \<or> t = PARTIALLY_FILLED \<or> t = CANCELLED \<or> t = EXPIRED)"
| "spec_transition PARTIALLY_FILLED t = (t = FILLED \<or> t = CANCELLED \<or> t = EXPIRED)"
| "spec_transition _ t = False"

definition spec_terminal :: "OrderStatus \<Rightarrow> bool" where
  "spec_terminal s = (s = FILLED \<or> s = CANCELLED \<or> s = REJECTED \<or> s = EXPIRED)"

section \<open>execution/slippage.py, execution/fees.py, paper/broker\_paper.py\<close>

record SlippageSimulator =
  slippage_bps :: real
  variance_bps :: real

text \<open>\<open>apply_slippage(price, side)\<close>; \<open>g\<close> is the value \<open>random.gauss\<close> returns.\<close>

definition apply_slippage :: "SlippageSimulator \<Rightarrow> real \<Rightarrow> real \<Rightarrow> string \<Rightarrow> real" where
  "apply_slippage sim g price side =
     (let slippage = g / 10000
      in if side = ''buy'' then price * (1 + \<bar>slippage\<bar>) else price * (1 - \<bar>slippage\<bar>))"

record FeesCalculator =
  maker_fee_bps :: real
  taker_fee_bps :: real

definition calculate_fee :: "FeesCalculator \<Rightarrow> real \<Rightarrow> bool \<Rightarrow> real" where
  "calculate_fee fc notional is_maker =
     (let fee_bps = (if is_maker then maker_fee_bps fc else taker_fee_bps fc)
      in notional * (fee_bps / 10000))"

datatype meta_value = MStr string | MNum real

record OrderResult =
  order_id :: string
  client_order_id :: "string option"
  symbol :: string
  side :: string
  order_type :: string
  status :: string
  quantity :: real
  filled_quantity :: real
  price :: "real option"
  average_fill_price :: "real option"
  timestamp :: datetime
  metadata :: "(string \<times> meta_value) list"

text \<open>A position of the paper broker: the dict with the keys \<open>'quantity'\<close> and
  \<open>'avg_price'\<close>.\<close>

record Position =
  pos_quantity :: real
  pos_avg_price :: real

record PaperBroker =
  cash :: real
  initial_cash :: real
  positions :: "string \<rightharpoonup> Position"
  orders :: "string \<rightharpoonup> OrderResult"
  slippage_sim :: SlippageSimulator
  fees_calc :: FeesCalculator

text \<open>\<open>PaperBroker.__init__\<close>; the simulator keeps its default variance of 1.0 and the
  calculator its default maker fee of 10.0.\<close>

definition init_broker :: "real \<Rightarrow> real \<Rightarrow> real \<Rightarrow> PaperBroker" where
  "init_broker c slip fees =
     \<lparr>cash = c, initial_cash = c, positions = Map.empty, orders = Map.empty,
      slippage_sim = \<lparr>slippage_bps = slip, variance_bps = 1\<rparr>,
      fees_calc = \<lparr>maker_fee_bps = 10, taker_fee_bps = fees\<rparr>\<rparr>"

text \<open>\<open>_update_position(symbol, quantity, price, side)\<close>.\<close>

definition update_position :: "PaperBroker \<Rightarrow> string \<Rightarrow> real \<Rightarrow> real \<Rightarrow> string \<Rightarrow> PaperBroker" where
  "update_position b symb qty px sd =
     (let pos = (case positions b symb of
                   None \<Rightarrow> \<lparr>pos_quantity = 0, pos_avg_price = 0\<rparr>
                 | Some p \<Rightarrow> p)
      in if sd = ''buy'' then
           let total_cost = pos_quantity pos * pos_avg_price pos + qty * px;
               q' = pos_quantity pos + qty
           in b\<lparr>positions := (positions b)(symb \<mapsto>
                  \<lparr>pos_quantity = q', pos_avg_price = (if q' > 0 then total_cost / q' else 0)\<rparr>)\<rparr>
         else
           let q' = pos_quantity pos - qty
           in if q' \<le> 0 then b\<lparr>positions := (positions b)(symb := None)\<rparr>
              else b\<lparr>positions := (positions b)(symb \<mapsto> pos\<lparr>pos_quantity := q'\<rparr>)\<rparr>)"

definition rejected_result ::
  "string \<Rightarrow> string option \<Rightarrow> string \<Rightarrow> string \<Rightarrow> real \<Rightarrow> datetime \<Rightarrow> string \<Rightarrow> OrderResult" where
  "rejected_result oid coid symb sd qty now why =
     \<lparr>order_id = oid, client_order_id = coid, symbol = symb, side = sd, order_type = ''market'',
      status = ''rejected'', quantity = qty, filled_quantity = 0, price = None,
      average_fill_price = None, timestamp = now,
      metadata = [(''reject_reason'', MStr why)]\<rparr>"

text \<open>
  \<open>create_market_order(symbol, side, quantity, current_price, client_order_id)\<close>:
  \<open>oid\<close> is the string of the fresh UUID, \<open>g\<close> the Gaussian sample drawn by the slippage
  simulator, \<open>now\<close> the time stamp of the result.
\<close>

definition create_market_order ::
  "PaperBroker \<Rightarrow> string \<Rightarrow> real \<Rightarrow> datetime \<Rightarrow> string \<Rightarrow> string \<Rightarrow> real \<Rightarrow> real \<Rightarrow> string option
     \<Rightarrow> OrderResult \<times> PaperBroker" where
  "create_market_order b oid g now symb sd qty current_price coid =
     (let exec_price = apply_slippage (slippage_sim b) g current_price sd;
          notional = exec_price * qty;
          fee = calculate_fee (fees_calc b) notional False;
          filled = \<lparr>order_id = oid, client_order_id = coid, symbol = symb, side = sd,
                    order_type = ''market'', status = ''filled'', quantity = qty,
                    filled_quantity = qty, price = None, average_fill_price = Some exec_price,
                    timestamp = now,
                    metadata = [(''fee'', MNum fee), (''slippage_price'', MNum exec_price)]\<rparr>
      in if sd = ''buy'' then
           let required_cash = notional + fee
           in if required_cash > cash b
              then (rejected_result oid coid symb sd qty now ''insufficient_cash'', b)
              else
                let b1 = update_position (b\<lparr>cash := cash b - required_cash\<rparr>) symb qty exec_price sd
                in (filled, b1\<lparr>orders := (orders b1)(oid \<mapsto> filled)\<rparr>)
         else
           if (case positions b symb of None \<Rightarrow> True | Some p \<Rightarrow> pos_quantity p < qty)
           then (rejected_result oid coid symb sd qty now ''insufficient_position'', b)
           else
             let b1 = update_position (b\<lparr>cash := cash b + (notional - fee)\<rparr>) symb (- qty) exec_price sd
             in (filled, b1\<lparr>orders := (orders b1)(oid \<mapsto> filled)\<rparr>))"

section \<open>risk/limits.py\<close>

record TradeRecord =
  tr_timestamp :: datetime
  tr_symbol :: string
  tr_side :: string

text \<open>
  A \<open>Dict[str, float]\<close> whose values are summed is kept as an association list with
  distinct keys, in insertion order: \<open>d.get(k, default)\<close> is \<open>dict_get\<close> and
  \<open>sum(d.values())\<close> is \<open>dict_values_sum\<close>.
\<close>

type_synonym float_dict = "(string \<times> real) list"

definition dict_get :: "float_dict \<Rightarrow> string \<Rightarrow> real \<Rightarrow> real" where
  "dict_get d k dflt = (case map_of d k of None \<Rightarrow> dflt | Some v \<Rightarrow> v)"

definition dict_values_sum :: "float_dict \<Rightarrow> real" where
  "dict_values_sum d = sum_list (map snd d)"

record RiskLimits =
  max_trades_per_minute :: int
  max_trades_per_day :: int
  max_position_exposure_pct :: real
  max_total_exposure_pct :: real
  trade_history :: "TradeRecord list"
  position_exposures :: float_dict

text \<open>\<open>RiskLimits.__init__\<close>; the defaults are 6, 1200, 0.25 and 0.80.\<close>

definition init_limits :: "int \<Rightarrow> int \<Rightarrow> real \<Rightarrow> real \<Rightarrow> RiskLimits" where
  "init_limits per_min per_day pos_pct total_pct =
     \<lparr>max_trades_per_minute = per_min, max_trades_per_day = per_day,
      max_position_exposure_pct = pos_pct, max_total_exposure_pct = total_pct,
      trade_history = [], position_exposures = []\<rparr>"

definition record_trade :: "RiskLimits \<Rightarrow> datetime \<Rightarrow> string \<Rightarrow> string \<Rightarrow> RiskLimits" where
  "record_trade rl now symb sd =
     rl\<lparr>trade_history := trade_history rl @
          [\<lparr>tr_timestamp = now, tr_symbol = symb, tr_side = sd\<rparr>]\<rparr>"

definition update_position_exposure :: "RiskLimits \<Rightarrow> string \<Rightarrow> real \<Rightarrow> RiskLimits" where
  "update_position_exposure rl symb exposure =
     (if exposure \<le> 0 then rl\<lparr>position_exposures := AList.delete symb (position_exposures rl)\<rparr>
      else rl\<lparr>position_exposures := AList.update symb exposure (position_exposures rl)\<rparr>)"

text \<open>\<open>_check_rate_limits(now)\<close>: prunes the history, then the two counters.\<close>

definition check_rate_limits :: "RiskLimits \<Rightarrow> datetime \<Rightarrow> (bool \<times> fstring) \<times> RiskLimits" where
  "check_rate_limits rl now =
     (let one_minute_ago = now - timedelta_minutes 1;
          one_day_ago = now - timedelta_days 1;
          hist = filter (\<lambda>t. tr_timestamp t > one_day_ago) (trade_history rl);
          rl1 = rl\<lparr>trade_history := hist\<rparr>;
          trades_last_minute = filter (\<lambda>t. tr_timestamp t > one_minute_ago) hist
      in if int (length trades_last_minute) \<ge> max_trades_per_minute rl
         then ((False, [Lit ''Trade rate limit exceeded: '',
                        FInt (int (length trades_last_minute)),
                        Lit '' trades in last minute'']), rl1)
         else if int (length hist) \<ge> max_trades_per_day rl
         then ((False, [Lit ''Daily trade limit exceeded: '', FInt (int (length hist)),
                        Lit '' trades today'']), rl1)
         else ((True, []), rl1))"

text \<open>
  \<open>can_place_order(symbol, side, position_value, equity)\<close>, with its clock reading.
  Both exposure ratios divide by \<open>equity\<close>, so the first division raises when it is zero.
\<close>

definition can_place_order ::
  "RiskLimits \<Rightarrow> datetime \<Rightarrow> string \<Rightarrow> string \<Rightarrow> real \<Rightarrow> real
     \<Rightarrow> (py_error + bool \<times> fstring) \<times> RiskLimits" where
  "can_place_order rl now symb sd position_value equity =
     (case check_rate_limits rl now of
        ((can, reason), rl1) \<Rightarrow>
          if \<not> can then (Inr (False, reason), rl1)
          else
            let current_exposure = dict_get (position_exposures rl1) symb 0;
                new_exposure = current_exposure + position_value
            in if equity = 0 then (Inl ZeroDivisionError, rl1)
               else
                 let exposure_pct = new_exposure / equity
                 in if exposure_pct > max_position_exposure_pct rl1
                    then (Inr (False, [Lit ''Position exposure limit exceeded for '', Lit symb,
                                       Lit '': '', FPct2 exposure_pct, Lit '' > '',
                                       FPct2 (max_position_exposure_pct rl1)]), rl1)
                    else
                      let total_exposure = dict_values_sum (position_exposures rl1) + position_value;
                          total_exposure_pct = total_exposure / equity
                      in if total_exposure_pct > max_total_exposure_pct rl1
                         then (Inr (False, [Lit ''Total exposure limit exceeded: '',
                                            FPct2 total_exposure_pct, Lit '' > '',
                                            FPct2 (max_total_exposure_pct rl1)]), rl1)
                         else (Inr (True, []), rl1))"

section \<open>strategies/base.py and strategies/trend\_atr.py\<close>









section \<open>portfolio/rebalancer.py\<close>

record Rebalancer =
  rebalance_threshold_pct :: real
  cost_aware :: bool
  fee_bps :: real




section \<open>risk/stop\_rules.py\<close>

record StopLevels =
  stop_loss :: "real option"
  take_profit :: "real option"
  trailing_stop_distance :: "real option"
  highest_price :: "real option"
  lowest_price :: "real option"

type_synonym StopLossManager = "string \<rightharpoonup> StopLevels"

text \<open>The truth value of an \<open>Optional[float]\<close>: \<open>None\<close> and \<open>0.0\<close> are falsy.\<close>

definition truthy :: "real option \<Rightarrow> bool" where
  "truthy v = (case v of None \<Rightarrow> False | Some x \<Rightarrow> x \<noteq> 0)"

definition set_stops ::
  "StopLossManager \<Rightarrow> string \<Rightarrow> real \<Rightarrow> string \<Rightarrow> real option \<Rightarrow> real option \<Rightarrow> real option
     \<Rightarrow> StopLossManager" where
  "set_stops stops position_id entry_price sd sl tp trailing =
     stops(position_id \<mapsto>
       \<lparr>stop_loss = sl, take_profit = tp, trailing_stop_distance = trailing,
        highest_price = (if sd = ''buy'' then Some entry_price else None),
        lowest_price = (if sd = ''sell'' then Some entry_price else None)\<rparr>)"

text \<open>\<open>check_stops(position_id, current_price, side)\<close>.  Inside a branch guarded by
  \<open>truthy\<close> the level is a number, so the comparison is the one of the source.\<close>

definition check_stops ::
  "StopLossManager \<Rightarrow> string \<Rightarrow> real \<Rightarrow> string \<Rightarrow> bool \<times> fstring option" where
  "check_stops stops position_id current_price sd =
     (case stops position_id of
        None \<Rightarrow> (False, None)
      | Some st \<Rightarrow>
          if sd = ''buy'' then
            if truthy (stop_loss st) \<and> current_price \<le> the (stop_loss st)
            then (True, Some [Lit ''Stop loss hit: '', FFloat current_price, Lit '' <= '',
                              FFloat (the (stop_loss st))])
            else if truthy (take_profit st) \<and> current_price \<ge> the (take_profit st)
            then (True, Some [Lit ''Take profit hit: '', FFloat current_price, Lit '' >= '',
                              FFloat (the (take_profit st))])
            else (False, None)
          else
            if truthy (stop_loss st) \<and> current_price \<ge> the (stop_loss st)
            then (True, Some [Lit ''Stop loss hit: '', FFloat current_price, Lit '' >= '',
                              FFloat (the (stop_loss st))])
            else if truthy (take_profit st) \<and> current_price \<le> the (take_profit st)
            then (True, Some [Lit ''Take profit hit: '', FFloat current_price, Lit '' <= '',
                              FFloat (the (take_profit st))])
            else (False, None))"

section \<open>Traces and example states\<close>

text \<open>
  A call of one of the methods of the circuit breaker other than \<open>reset\<close>, with the clock
  readings it makes, and the manager it leaves behind.
\<close>

datatype cb_call =
    CheckDrawdown datetime datetime real real
  | RecordFailedOrder datetime datetime
  | ManualKillSwitch datetime fstring
  | CanTrade datetime

fun run_call :: "CircuitBreakerManager \<Rightarrow> cb_call \<Rightarrow> CircuitBreakerManager" where
  "run_call m (CheckDrawdown now now_t cur start) = snd (check_drawdown m now now_t cur start)"
| "run_call m (RecordFailedOrder now now_t) = snd (record_failed_order m now now_t)"
| "run_call m (ManualKillSwitch now reason) = manual_kill_switch m now reason"
| "run_call m (CanTrade now) = (let _ = can_trade m now in m)"

definition default_manager :: CircuitBreakerManager where
  "default_manager = init_manager (4 / 100) 10 60"

definition killed_manager :: CircuitBreakerManager where
  "killed_manager = manual_kill_switch default_manager 0 [Lit ''Test'']"

text \<open>The default manager after a first check of the day at an equity of 10500, above the
  starting equity of 10000.\<close>

definition risen_manager :: CircuitBreakerManager where
  "risen_manager = snd (check_drawdown default_manager 0 1 10500 10000)"

definition filled_order :: Order where
  "filled_order =
     \<lparr>o_symbol = ''BTC/USDT'', o_status = FILLED, o_quantity = 1,
      o_filled_quantity = Some 1, o_average_fill_price = Some 50000, o_created_at = 0,
      o_updated_at = 5, o_filled_at = Some 5, o_cancelled_at = None\<rparr>"

definition two_failures :: CircuitBreakerManager where
  "two_failures =
     snd (record_failed_order (snd (record_failed_order (init_manager (4 / 100) 3 60) 0 1)) 10 11)"

definition example_orders :: orders_table where
  "example_orders = [''o1'' \<mapsto> filled_order]"

text \<open>Paper brokers as the tests build them, and a buy of a negative quantity.\<close>

definition fresh_broker :: PaperBroker where
  "fresh_broker = init_broker 10000 2 10"

definition poor_broker :: PaperBroker where
  "poor_broker = init_broker 1000 2 10"

definition negative_buy :: "OrderResult \<times> PaperBroker" where
  "negative_buy = create_market_order fresh_broker ''id-1'' 0 0 ''BTC/USDT'' ''buy'' (- 1) 100 None"

text \<open>Risk limits as the tests build them.\<close>

definition default_limits :: RiskLimits where
  "default_limits = init_limits 6 1200 (25 / 100) (80 / 100)"

definition exposed_limits :: RiskLimits where
  "exposed_limits =
     update_position_exposure (update_position_exposure default_limits ''BTC/USDT'' 4000)
       ''ETH/USDT'' 3000"

definition busy_limits :: RiskLimits where
  "busy_limits =
     record_trade (record_trade (init_limits 2 1200 (25 / 100) (80 / 100)) 10 ''BTC/USDT'' ''buy'')
       20 ''ETH/USDT'' ''buy''"

text \<open>A short position registered with a stop loss of 0.0 and no take profit.\<close>

definition short_zero_stop :: StopLossManager where
  "short_zero_stop = set_stops Map.empty ''p1'' 100 ''sell'' (Some 0) None None"












section \<open>Circuit breaker: drawdown\<close>

text \<open>The value stored as the daily high is the running maximum: the larger of the
  current equity and the mark held before, which is the starting equity on the first call
  and on the first call of a new day, and the stored mark otherwise.\<close>

lemma new_daily_high_running_max:
  "new_daily_high m now cur start =
     max (if (case last_reset_date m of None \<Rightarrow> True | Some d \<Rightarrow> date d < date now) then start
          else (case daily_high_equity m of None \<Rightarrow> start | Some x \<Rightarrow> x)) cur"
  by (simp add: new_daily_high_def roll_day_def split: option.splits)

lemma triggered_trigger: "triggered (state (trigger m t r))"
  by (simp add: trigger_def)

lemma trigger_daily_high: "daily_high_equity (trigger m t r) = daily_high_equity m"
  by (simp add: trigger_def)

lemma trigger_history: "failed_orders_history (trigger m t r) = failed_orders_history m"
  by (simp add: trigger_def)

text \<open>
  C1.  Let \<open>prior\<close> be the high-water mark the call starts from (the starting equity on
  the first call and on the first call of a new day, the stored daily high otherwise) and
  \<open>h = max prior current_equity\<close> the running maximum.  On a breaker that is not yet
  triggered the call stores \<open>h\<close> as the daily high, and with \<open>h\<close> non-zero (so that the
  drawdown is defined): if \<open>(h - current_equity) / h\<close> is at least \<open>max_daily_drawdown\<close>,
  the call returns true, the breaker is triggered and \<open>can_trade\<close> is false at every later
  time; if it is strictly below, the call returns false and \<open>can_trade\<close> stays true.  On
  a breaker that is already triggered the call returns true and \<open>can_trade\<close> is false.
  With \<open>h = 0\<close> on a breaker that is not triggered the division raises.
\<close>

theorem check_drawdown_threshold:
  assumes prior: "prior = (if (case last_reset_date m of None \<Rightarrow> True | Some d \<Rightarrow> date d < date now)
                           then start
                           else (case daily_high_equity m of None \<Rightarrow> start | Some x \<Rightarrow> x))"
    and running_max: "h = max prior cur"
  shows "(triggered (state m) \<longrightarrow>
            check_drawdown m now now_t cur start = (Inr True, m) \<and> \<not> can_trade m t) \<and>
         (\<not> triggered (state m) \<and> h \<noteq> 0 \<and> (h - cur) / h \<ge> max_daily_drawdown m \<longrightarrow>
            (\<exists>m'. check_drawdown m now now_t cur start = (Inr True, m') \<and>
                  daily_high_equity m' = Some h \<and> triggered (state m') \<and> \<not> can_trade m' t)) \<and>
         (\<not> triggered (state m) \<and> h \<noteq> 0 \<and> (h - cur) / h < max_daily_drawdown m \<longrightarrow>
            (\<exists>m'. check_drawdown m now now_t cur start = (Inr False, m') \<and>
                  daily_high_equity m' = Some h \<and> \<not> triggered (state m') \<and> can_trade m' t)) \<and>
         (\<not> triggered (state m) \<and> h = 0 \<longrightarrow>
            fst (check_drawdown m now now_t cur start) = Inl ZeroDivisionError)"
proof -
  have high: "h = new_daily_high m now cur start"
    using prior running_max by (simp only: new_daily_high_running_max)
  have tripped: "check_drawdown m now now_t cur start = (Inr True, m) \<and> \<not> can_trade m t"
    if "triggered (state m)"
    using that by (simp add: check_drawdown_def can_trade_def)
  have trips: "\<exists>m'. check_drawdown m now now_t cur start = (Inr True, m') \<and>
                  daily_high_equity m' = Some h \<and> triggered (state m') \<and> \<not> can_trade m' t"
    if "\<not> triggered (state m) \<and> h \<noteq> 0 \<and> (h - cur) / h \<ge> max_daily_drawdown m"
    using that high
    by (simp add: check_drawdown_def can_trade_def Let_def triggered_trigger trigger_daily_high)
  have stays: "\<exists>m'. check_drawdown m now now_t cur start = (Inr False, m') \<and>
                  daily_high_equity m' = Some h \<and> \<not> triggered (state m') \<and> can_trade m' t"
    if a: "\<not> triggered (state m) \<and> h \<noteq> 0 \<and> (h - cur) / h < max_daily_drawdown m"
  proof -
    have "\<not> triggered (state (roll_day m now start))"
      using a by (simp add: roll_day_def)
    with a high show ?thesis
      by (simp add: check_drawdown_def can_trade_def Let_def)
  qed
  have raises: "fst (check_drawdown m now now_t cur start) = Inl ZeroDivisionError"
    if "\<not> triggered (state m) \<and> h = 0"
    using that high by (simp add: check_drawdown_def Let_def)
  from tripped trips stays raises show ?thesis by blast
qed

lemma risen_manager_eq:
  "risen_manager = default_manager\<lparr>daily_high_equity := Some 10500, last_reset_date := Some 0\<rparr>"
  by (simp add: risen_manager_def check_drawdown_def new_daily_high_def roll_day_def
      default_manager_def init_manager_def untriggered_def Let_def)

theorem check_drawdown_threshold_witness:
  "fst (check_drawdown default_manager 0 1 9500 10000) = Inr True \<and>
   \<not> can_trade (snd (check_drawdown default_manager 0 1 9500 10000)) 2 \<and>
   fst (check_drawdown default_manager 0 1 9700 10000) = Inr False \<and>
   can_trade (snd (check_drawdown default_manager 0 1 9700 10000)) 2 \<and>
   daily_high_equity risen_manager = Some 10500 \<and>
   fst (check_drawdown risen_manager 2 3 9700 10000) = Inr True \<and>
   daily_high_equity (snd (check_drawdown risen_manager 2 3 9700 10000)) = Some 10500 \<and>
   \<not> can_trade (snd (check_drawdown risen_manager 2 3 9700 10000)) 4 \<and>
   fst (check_drawdown risen_manager 2 3 10200 10000) = Inr False \<and>
   fst (check_drawdown risen_manager 86400000000 86400000001 9700 10000) = Inr False \<and>
   fst (check_drawdown killed_manager 0 1 10000 10000) = Inr True \<and>
   fst (check_drawdown default_manager 0 1 0 0) = Inl ZeroDivisionError"
proof -
  have nt: "\<not> triggered (state default_manager)" "max_daily_drawdown default_manager = 4 / 100"
    "last_reset_date default_manager = None" "daily_high_equity default_manager = None"
    by (simp_all add: default_manager_def init_manager_def untriggered_def)
  have rt: "\<not> triggered (state risen_manager)" "max_daily_drawdown risen_manager = 4 / 100"
    "last_reset_date risen_manager = Some 0" "daily_high_equity risen_manager = Some 10500"
    by (simp_all add: risen_manager_eq nt)
  have kt: "triggered (state killed_manager)"
    by (simp add: killed_manager_def manual_kill_switch_def triggered_trigger)
  have d: "date 0 = 0" "date 2 = 0" "date 86400000000 = 1"
    by (simp_all add: date_def)
  show ?thesis
    using check_drawdown_threshold [where m = default_manager and now = 0 and now_t = 1
        and cur = 9500 and start = 10000 and t = 2, OF refl refl]
      check_drawdown_threshold [where m = default_manager and now = 0 and now_t = 1
        and cur = 9700 and start = 10000 and t = 2, OF refl refl]
      check_drawdown_threshold [where m = risen_manager and now = 2 and now_t = 3
        and cur = 9700 and start = 10000 and t = 4, OF refl refl]
      check_drawdown_threshold [where m = risen_manager and now = 2 and now_t = 3
        and cur = 10200 and start = 10000 and t = 4, OF refl refl]
      check_drawdown_threshold [where m = risen_manager and now = 86400000000
        and now_t = 86400000001 and cur = 9700 and start = 10000 and t = 4, OF refl refl]
      check_drawdown_threshold [where m = killed_manager and now = 0 and now_t = 1
        and cur = 10000 and start = 10000 and t = 2, OF refl refl]
      check_drawdown_threshold [where m = default_manager and now = 0 and now_t = 1
        and cur = 0 and start = 0 and t = 2, OF refl refl]
      nt rt kt d
    by auto
qed

section \<open>Circuit breaker: reset\<close>

lemma run_call_triggered: "triggered (state m) \<Longrightarrow> run_call m c = m"
  by (cases c) (simp_all add: check_drawdown_def record_failed_order_def manual_kill_switch_def
      trigger_def)

lemma foldl_run_call_triggered: "triggered (state m) \<Longrightarrow> foldl run_call m cs = m"
  by (induction cs) (simp_all add: run_call_triggered)

text \<open>
  C2.  Once the breaker is triggered, no sequence of calls of \<open>check_drawdown\<close>,
  \<open>record_failed_order\<close>, \<open>manual_kill_switch\<close> and \<open>can_trade\<close> changes the manager, and
  \<open>can_trade\<close> is false at every time \<open>t\<close>, also after \<open>can_resume_at\<close>;
  \<open>reset(force=True)\<close> makes \<open>can_trade\<close> true and empties the failed-order history;
  \<open>reset(force=False)\<close> before \<open>can_resume_at\<close> leaves the manager as it is, triggered.
\<close>

theorem breaker_stays_tripped_until_reset:
  assumes "triggered (state m)"
  shows "foldl run_call m calls = m \<and> \<not> can_trade (foldl run_call m calls) t \<and>
         can_trade (reset m now True) t \<and> failed_orders_history (reset m now True) = [] \<and>
         (can_resume_at (state m) = Some r \<and> now < r \<longrightarrow>
            reset m now False = m \<and> \<not> can_trade (reset m now False) t)"
  using assms
  by (simp add: foldl_run_call_triggered can_trade_def reset_def untriggered_def)

theorem breaker_stays_tripped_until_reset_witness:
  "can_resume_at (state killed_manager) = Some 3600000000 \<and>
   \<not> can_trade (foldl run_call killed_manager
                  [CanTrade 3600000001, RecordFailedOrder 3600000002 3600000002,
                   CheckDrawdown 3600000003 3600000003 10000 10000]) 7200000000 \<and>
   can_trade (reset killed_manager 100 True) 101 \<and>
   failed_orders_history (reset killed_manager 100 True) = [] \<and>
   reset killed_manager 100 False = killed_manager"
proof -
  have kt: "triggered (state killed_manager)"
    by (simp add: killed_manager_def manual_kill_switch_def triggered_trigger)
  have r: "can_resume_at (state killed_manager) = Some 3600000000"
    by (simp add: killed_manager_def manual_kill_switch_def trigger_def default_manager_def
        init_manager_def untriggered_def timedelta_minutes_def)
  show ?thesis
    using breaker_stays_tripped_until_reset [OF kt,
        of "[CanTrade 3600000001, RecordFailedOrder 3600000002 3600000002,
             CheckDrawdown 3600000003 3600000003 10000 10000]" 7200000000 100 3600000000]
      breaker_stays_tripped_until_reset [OF kt, of "[]" 101 100 3600000000] r
    by simp
qed

section \<open>Circuit breaker: failed orders\<close>

lemma two_failures_eq:
  "two_failures = (init_manager (4 / 100) 3 60)\<lparr>failed_orders_history := [0, 10]\<rparr>"
  by (simp add: two_failures_def record_failed_order_def init_manager_def untriggered_def
      Let_def timedelta_hours_def)

text \<open>
  C7 (as amended).  On a breaker that is not triggered, \<open>record_failed_order\<close> appends the
  current time, keeps the entries \<open>x\<close> with \<open>now - 1 hour < x\<close>, and returns true,
  triggering the breaker and making \<open>can_trade\<close> false, exactly when the number of entries
  kept is at least \<open>max_failed_orders_per_hour\<close>; the entry just appended is kept and no
  entry kept is an hour old or older.  On a breaker that is already triggered the call
  returns true at once and records nothing.
\<close>

theorem record_failed_order_window:
  assumes kept: "kept = filter (\<lambda>x. now - timedelta_hours 1 < x) (failed_orders_history m @ [now])"
  shows "(triggered (state m) \<longrightarrow> record_failed_order m now now_t = (True, m)) \<and>
         (\<not> triggered (state m) \<longrightarrow>
            (\<exists>m'. record_failed_order m now now_t =
                    (max_failed_orders_per_hour m \<le> int (length kept), m') \<and>
                  failed_orders_history m' = kept \<and>
                  triggered (state m') = (max_failed_orders_per_hour m \<le> int (length kept)) \<and>
                  can_trade m' t = (int (length kept) < max_failed_orders_per_hour m))) \<and>
         now \<in> set kept \<and> (\<forall>x \<in> set kept. now - x < timedelta_hours 1)"
proof -
  have a: "record_failed_order m now now_t = (True, m)" if "triggered (state m)"
    using that by (simp add: record_failed_order_def)
  have b: "\<exists>m'. record_failed_order m now now_t =
                    (max_failed_orders_per_hour m \<le> int (length kept), m') \<and>
                  failed_orders_history m' = kept \<and>
                  triggered (state m') = (max_failed_orders_per_hour m \<le> int (length kept)) \<and>
                  can_trade m' t = (int (length kept) < max_failed_orders_per_hour m)"
    if "\<not> triggered (state m)"
    using that kept
    by (auto simp add: record_failed_order_def Let_def can_trade_def triggered_trigger
        trigger_history)
  have c: "now \<in> set kept"
    using kept by (simp add: timedelta_hours_def)
  have d: "\<forall>x \<in> set kept. now - x < timedelta_hours 1"
    using kept by auto
  from a b c d show ?thesis by blast
qed

theorem record_failed_order_window_witness:
  "fst (record_failed_order two_failures 20 21) \<and>
   \<not> can_trade (snd (record_failed_order two_failures 20 21)) 22 \<and>
   \<not> fst (record_failed_order two_failures 3600000010 3600000011) \<and>
   failed_orders_history (snd (record_failed_order two_failures 3600000010 3600000011))
     = [3600000010] \<and>
   record_failed_order killed_manager 20 21 = (True, killed_manager)"
proof -
  have nt: "\<not> triggered (state two_failures)" "max_failed_orders_per_hour two_failures = 3"
    "failed_orders_history two_failures = [0, 10]"
    by (simp_all add: two_failures_eq init_manager_def untriggered_def)
  have kt: "triggered (state killed_manager)"
    by (simp add: killed_manager_def manual_kill_switch_def triggered_trigger)
  show ?thesis
    using record_failed_order_window [OF refl, of two_failures 20 21 22]
      record_failed_order_window [OF refl, of two_failures 3600000010 3600000011 22]
      record_failed_order_window [OF refl, of killed_manager 20 21 22] nt kt
    by (auto simp add: timedelta_hours_def)
qed

text \<open>
  C7 as stated fails on a triggered breaker: the call returns true although no time stamp
  was appended and the history, still empty, is below the threshold of 10.
\<close>

theorem record_failed_order_triggered_counterexample:
  "fst (record_failed_order killed_manager 5 6) \<and>
   failed_orders_history (snd (record_failed_order killed_manager 5 6)) = [] \<and>
   int (length (failed_orders_history (snd (record_failed_order killed_manager 5 6))))
     < max_failed_orders_per_hour killed_manager"
  by (simp add: record_failed_order_def killed_manager_def manual_kill_switch_def trigger_def
      default_manager_def init_manager_def untriggered_def)

section \<open>Order status updates\<close>

text \<open>
  C3 (as amended).  \<open>update_order_status\<close> returns nothing and leaves the table alone when
  the order does not exist.  Otherwise it stores the given status whatever the current
  status is, terminal or not, and sets \<open>updated_at\<close>; \<open>filled_at\<close> is stamped exactly when
  the new status is \<open>filled\<close> and \<open>cancelled_at\<close> exactly when it is \<open>cancelled\<close>, and
  both keep their old value otherwise.
\<close>

theorem update_order_status_unconditional:
  "(db oid = None \<longrightarrow> update_order_status db oid s fq ap now_u now_s = (None, db)) \<and>
   (\<forall>order. db oid = Some order \<longrightarrow>
      (\<exists>o'. update_order_status db oid s fq ap now_u now_s = (Some o', db(oid \<mapsto> o')) \<and>
            o_status o' = s \<and> o_updated_at o' = now_u \<and>
            o_filled_at o' = (if s = FILLED then Some now_s else o_filled_at order) \<and>
            o_cancelled_at o' = (if s = CANCELLED then Some now_s else o_cancelled_at order)))"
  by (auto simp add: update_order_status_def get_order_def Let_def split: option.splits)

theorem update_order_status_unconditional_witness:
  "map_option o_status (fst (update_order_status example_orders ''o1'' CANCELLED None None 10 11))
     = Some CANCELLED \<and>
   map_option o_cancelled_at (fst (update_order_status example_orders ''o1'' CANCELLED None None 10 11))
     = Some (Some 11) \<and>
   map_option o_filled_at (fst (update_order_status example_orders ''o1'' CANCELLED None None 10 11))
     = Some (Some 5) \<and>
   update_order_status example_orders ''o2'' CANCELLED None None 10 11 = (None, example_orders)"
  using update_order_status_unconditional [of example_orders "''o1''" CANCELLED None None 10 11]
    update_order_status_unconditional [of example_orders "''o2''" CANCELLED None None 10 11]
  by (auto simp add: example_orders_def filled_order_def)

text \<open>
  C3 as stated fails: an order in the terminal state \<open>filled\<close> is moved back to
  \<open>pending\<close>, a transition the state machine of the specification does not have.
\<close>

theorem update_order_status_terminal_counterexample:
  "spec_terminal (o_status filled_order) \<and>
   get_order example_orders ''o1'' = Some filled_order \<and>
   \<not> spec_transition (o_status filled_order) PENDING \<and>
   map_option o_status (get_order
       (snd (update_order_status example_orders ''o1'' PENDING None None 10 11)) ''o1'')
     = Some PENDING"
  by (simp add: spec_terminal_def filled_order_def example_orders_def update_order_status_def
      get_order_def Let_def)

section \<open>Paper broker\<close>

lemma rejected_result_fields:
  "status (rejected_result oid coid symb sd qty now why) = ''rejected''"
  "filled_quantity (rejected_result oid coid symb sd qty now why) = 0"
  "map_of (metadata (rejected_result oid coid symb sd qty now why)) ''reject_reason'' = Some (MStr why)"
  by (simp_all add: rejected_result_def)

text \<open>
  C4.  With \<open>p\<close> the slippage-adjusted price and \<open>f\<close> the taker fee on \<open>p * qty\<close>: a buy
  with \<open>p * qty + f\<close> above the cash, and a sell of more than the quantity held (nothing
  is held of a symbol without a position), both return a result with status
  \<open>rejected\<close>, filled quantity 0 and the reject reason \<open>insufficient_cash\<close>, respectively
  \<open>insufficient_position\<close>, and return the broker as it was: cash, positions and orders.
  The function is total on these paths: no branch of the source raises.
\<close>

theorem create_market_order_rejects_unchanged:
  assumes p: "p = current_price * (1 + \<bar>g / 10000\<bar>)"
    and f: "f = p * qty * (taker_fee_bps (fees_calc b) / 10000)"
    and held: "held = (case positions b symb of None \<Rightarrow> 0 | Some pos \<Rightarrow> pos_quantity pos)"
  shows "(cash b < p * qty + f \<longrightarrow>
            (\<exists>r. create_market_order b oid g now symb ''buy'' qty current_price coid = (r, b) \<and>
                 status r = ''rejected'' \<and> filled_quantity r = 0 \<and>
                 map_of (metadata r) ''reject_reason'' = Some (MStr ''insufficient_cash''))) \<and>
         (held < qty \<longrightarrow>
            (\<exists>r. create_market_order b oid g now symb ''sell'' qty current_price coid = (r, b) \<and>
                 status r = ''rejected'' \<and> filled_quantity r = 0 \<and>
                 map_of (metadata r) ''reject_reason'' = Some (MStr ''insufficient_position'')))"
proof -
  have buy: "\<exists>r. create_market_order b oid g now symb ''buy'' qty current_price coid = (r, b) \<and>
                 status r = ''rejected'' \<and> filled_quantity r = 0 \<and>
                 map_of (metadata r) ''reject_reason'' = Some (MStr ''insufficient_cash'')"
    if "cash b < p * qty + f"
    using that p f
    by (simp add: create_market_order_def apply_slippage_def calculate_fee_def Let_def
        rejected_result_fields)
  have sell: "\<exists>r. create_market_order b oid g now symb ''sell'' qty current_price coid = (r, b) \<and>
                 status r = ''rejected'' \<and> filled_quantity r = 0 \<and>
                 map_of (metadata r) ''reject_reason'' = Some (MStr ''insufficient_position'')"
    if "held < qty"
  proof -
    have "(case positions b symb of None \<Rightarrow> True | Some pos \<Rightarrow> pos_quantity pos < qty)"
      using that held by (simp split: option.splits)
    then show ?thesis
      by (simp add: create_market_order_def Let_def rejected_result_fields)
  qed
  from buy sell show ?thesis by blast
qed

theorem create_market_order_rejects_unchanged_witness:
  "snd (create_market_order poor_broker ''id-1'' 2 0 ''BTC/USDT'' ''buy'' 1 50000 None) = poor_broker \<and>
   status (fst (create_market_order poor_broker ''id-1'' 2 0 ''BTC/USDT'' ''buy'' 1 50000 None))
     = ''rejected'' \<and>
   snd (create_market_order poor_broker ''id-2'' 2 0 ''BTC/USDT'' ''sell'' 1 50000 None) = poor_broker \<and>
   map_of (metadata (fst (create_market_order poor_broker ''id-2'' 2 0 ''BTC/USDT'' ''sell'' 1 50000 None)))
     ''reject_reason'' = Some (MStr ''insufficient_position'')"
proof -
  have c: "cash poor_broker = 1000" "taker_fee_bps (fees_calc poor_broker) = 10"
    "positions poor_broker ''BTC/USDT'' = None"
    by (simp_all add: poor_broker_def init_broker_def)
  show ?thesis
    using create_market_order_rejects_unchanged [where b = poor_broker and current_price = 50000
        and g = 2 and qty = 1 and symb = "''BTC/USDT''" and oid = "''id-1''" and now = 0
        and coid = None, OF refl refl refl]
      create_market_order_rejects_unchanged [where b = poor_broker and current_price = 50000
        and g = 2 and qty = 1 and symb = "''BTC/USDT''" and oid = "''id-2''" and now = 0
        and coid = None, OF refl refl refl] c
    by auto
qed

text \<open>
  C6 (as amended).  An accepted buy of \<open>q\<close> at the slippage-adjusted price \<open>p\<close> with fee
  \<open>f = p * q * fees_bps / 10000\<close> lowers the cash by exactly \<open>p * q + f\<close>, raises the
  quantity of the position by \<open>q\<close>, sets its average price to
  \<open>(old_qty * old_avg + q * p) / (old_qty + q)\<close> when the new quantity \<open>old_qty + q\<close> is
  positive and to 0 otherwise, and records under the order id the result it returns:
  status \<open>filled\<close>, filled quantity \<open>q\<close>, average fill price \<open>p\<close>, and the fee and the
  price in the metadata.
\<close>

theorem create_market_order_buy_fills:
  assumes p: "p = current_price * (1 + \<bar>g / 10000\<bar>)"
    and f: "f = p * q * (taker_fee_bps (fees_calc b) / 10000)"
    and old: "(old_qty, old_avg) =
                (case positions b symb of None \<Rightarrow> (0, 0)
                 | Some pos \<Rightarrow> (pos_quantity pos, pos_avg_price pos))"
    and accepted: "p * q + f \<le> cash b"
  shows "\<exists>r b'. create_market_order b oid g now symb ''buy'' q current_price coid = (r, b') \<and>
           cash b' = cash b - (p * q + f) \<and>
           positions b' symb =
             Some \<lparr>pos_quantity = old_qty + q,
                   pos_avg_price = (if old_qty + q > 0
                                    then (old_qty * old_avg + q * p) / (old_qty + q) else 0)\<rparr> \<and>
           orders b' oid = Some r \<and>
           status r = ''filled'' \<and> filled_quantity r = q \<and> average_fill_price r = Some p \<and>
           metadata r = [(''fee'', MNum f), (''slippage_price'', MNum p)]"
proof -
  have ok: "\<not> cash b < p * q + f"
    using accepted by simp
  obtain pos where pos: "pos = (case positions b symb of
                                  None \<Rightarrow> \<lparr>pos_quantity = 0, pos_avg_price = 0\<rparr>
                                | Some x \<Rightarrow> x)"
    by simp
  have oq: "pos_quantity pos = old_qty" "pos_avg_price pos = old_avg"
    using old pos by (simp_all split: option.splits)
  have upd: "update_position (b\<lparr>cash := cash b - (p * q + f)\<rparr>) symb q p ''buy'' =
          b\<lparr>cash := cash b - (p * q + f),
            positions := (positions b)(symb \<mapsto>
              \<lparr>pos_quantity = old_qty + q,
               pos_avg_price = (if old_qty + q > 0
                                then (old_qty * old_avg + q * p) / (old_qty + q) else 0)\<rparr>)\<rparr>"
    using oq pos by (simp add: update_position_def Let_def)
  have E: "apply_slippage (slippage_sim b) g current_price ''buy'' = p"
    using p by (simp add: apply_slippage_def)
  have F: "calculate_fee (fees_calc b) (p * q) False = f"
    using f by (simp add: calculate_fee_def)
  show ?thesis
    using ok by (simp add: create_market_order_def Let_def E F upd)
qed

theorem create_market_order_buy_fills_witness:
  "cash (snd (create_market_order fresh_broker ''id-1'' 0 0 ''BTC/USDT'' ''buy'' (1 / 10) 50000 None))
     = 4995 \<and>
   positions (snd (create_market_order fresh_broker ''id-1'' 0 0 ''BTC/USDT'' ''buy'' (1 / 10) 50000 None))
     ''BTC/USDT'' = Some \<lparr>pos_quantity = 1 / 10, pos_avg_price = 50000\<rparr> \<and>
   status (fst (create_market_order fresh_broker ''id-1'' 0 0 ''BTC/USDT'' ''buy'' (1 / 10) 50000 None))
     = ''filled''"
proof -
  have c: "cash fresh_broker = 10000" "taker_fee_bps (fees_calc fresh_broker) = 10"
    "positions fresh_broker ''BTC/USDT'' = None"
    by (simp_all add: fresh_broker_def init_broker_def)
  show ?thesis
    using create_market_order_buy_fills [where b = fresh_broker and current_price = 50000
        and g = 0 and q = "1 / 10" and symb = "''BTC/USDT''" and oid = "''id-1''" and now = 0
        and coid = None and old_qty = 0 and old_avg = 0, OF refl refl] c
    by auto
qed

text \<open>
  C6 as stated fails where the new quantity is not positive: a buy of \<open>-1\<close> on a broker
  without a position is accepted and filled at 100, the average price stored is 0, and
  the formula of the claim gives 100.
\<close>

theorem create_market_order_negative_buy_counterexample:
  "positions fresh_broker ''BTC/USDT'' = None \<and>
   status (fst negative_buy) = ''filled'' \<and>
   filled_quantity (fst negative_buy) = - 1 \<and>
   average_fill_price (fst negative_buy) = Some 100 \<and>
   map_option pos_avg_price (positions (snd negative_buy) ''BTC/USDT'') = Some 0 \<and>
   (0 * 0 + (- 1) * 100) / (0 + (- 1)) = (100 :: real)"
  by (simp add: negative_buy_def fresh_broker_def init_broker_def create_market_order_def
      apply_slippage_def calculate_fee_def update_position_def Let_def)

section \<open>Risk limits\<close>

lemma minute_within_day:
  "filter (\<lambda>t. now - timedelta_days 1 < tr_timestamp t \<and> now - timedelta_minutes 1 < tr_timestamp t) xs
   = filter (\<lambda>t. now - timedelta_minutes 1 < tr_timestamp t) xs"
proof -
  have "now - timedelta_minutes 1 < x \<Longrightarrow> now - timedelta_days 1 < x" for x :: int
    by (simp add: timedelta_minutes_def timedelta_days_def)
  then show ?thesis
    by (induction xs) auto
qed

lemma check_rate_limits_result:
  assumes "n_minute = length (filter (\<lambda>t. now - timedelta_minutes 1 < tr_timestamp t) (trade_history rl))"
    and "n_day = length (filter (\<lambda>t. now - timedelta_days 1 < tr_timestamp t) (trade_history rl))"
  shows "check_rate_limits rl now =
     ((if max_trades_per_minute rl \<le> int n_minute
       then (False, [Lit ''Trade rate limit exceeded: '', FInt (int n_minute),
                     Lit '' trades in last minute''])
       else if max_trades_per_day rl \<le> int n_day
       then (False, [Lit ''Daily trade limit exceeded: '', FInt (int n_day), Lit '' trades today''])
       else (True, [])),
      rl\<lparr>trade_history := filter (\<lambda>t. now - timedelta_days 1 < tr_timestamp t) (trade_history rl)\<rparr>)"
  using assms by (simp add: check_rate_limits_def Let_def minute_within_day)

text \<open>
  C5.  Let \<open>n_minute\<close> and \<open>n_day\<close> count the recorded trades newer than 60 seconds and
  newer than one day, and let \<open>pos_pct\<close> and \<open>total_pct\<close> be the two exposure ratios of the
  proposal.  Whenever the ratios are defined (\<open>equity\<close> is not zero) or a rate limit binds,
  \<open>can_place_order\<close> returns, and it rejects exactly when \<open>n_minute\<close> reaches
  \<open>max_trades_per_minute\<close>, or \<open>n_day\<close> reaches \<open>max_trades_per_day\<close>, or \<open>pos_pct\<close>
  exceeds \<open>max_position_exposure_pct\<close>, or \<open>total_pct\<close> exceeds
  \<open>max_total_exposure_pct\<close>; the reason is empty exactly on acceptance and otherwise
  starts with the text of the first check that fails, in that order.  A ratio equal to
  its cap is accepted.  With \<open>equity = 0\<close> and no rate limit binding the division raises.
\<close>

theorem can_place_order_rejects_exactly:
  assumes nm: "n_minute = length (filter (\<lambda>t. now - timedelta_minutes 1 < tr_timestamp t) (trade_history rl))"
    and nd: "n_day = length (filter (\<lambda>t. now - timedelta_days 1 < tr_timestamp t) (trade_history rl))"
    and pe: "pos_pct = (dict_get (position_exposures rl) symb 0 + position_value) / equity"
    and te: "total_pct = (dict_values_sum (position_exposures rl) + position_value) / equity"
    and rate: "rate_limited = (max_trades_per_minute rl \<le> int n_minute \<or> max_trades_per_day rl \<le> int n_day)"
    and res: "res = fst (can_place_order rl now symb sd position_value equity)"
  shows "(equity \<noteq> 0 \<or> rate_limited \<longrightarrow>
           (\<exists>ok reason. res = Inr (ok, reason) \<and>
              (\<not> ok \<longleftrightarrow> max_trades_per_minute rl \<le> int n_minute \<or>
                      max_trades_per_day rl \<le> int n_day \<or>
                      max_position_exposure_pct rl < pos_pct \<or>
                      max_total_exposure_pct rl < total_pct) \<and>
              (ok \<longleftrightarrow> reason = []) \<and>
              (\<not> ok \<longrightarrow> hd reason =
                 (if max_trades_per_minute rl \<le> int n_minute
                  then Lit ''Trade rate limit exceeded: ''
                  else if max_trades_per_day rl \<le> int n_day
                  then Lit ''Daily trade limit exceeded: ''
                  else if max_position_exposure_pct rl < pos_pct
                  then Lit ''Position exposure limit exceeded for ''
                  else Lit ''Total exposure limit exceeded: '')))) \<and>
         (equity = 0 \<and> \<not> rate_limited \<longrightarrow> res = Inl ZeroDivisionError) \<and>
         position_exposures (snd (can_place_order rl now symb sd position_value equity))
           = position_exposures rl"
proof -
  note crl = check_rate_limits_result [OF nm nd]
  have limited: "\<exists>ok reason. res = Inr (ok, reason) \<and>
              (\<not> ok \<longleftrightarrow> max_trades_per_minute rl \<le> int n_minute \<or>
                      max_trades_per_day rl \<le> int n_day \<or>
                      max_position_exposure_pct rl < pos_pct \<or>
                      max_total_exposure_pct rl < total_pct) \<and>
              (ok \<longleftrightarrow> reason = []) \<and>
              (\<not> ok \<longrightarrow> hd reason =
                 (if max_trades_per_minute rl \<le> int n_minute
                  then Lit ''Trade rate limit exceeded: ''
                  else if max_trades_per_day rl \<le> int n_day
                  then Lit ''Daily trade limit exceeded: ''
                  else if max_position_exposure_pct rl < pos_pct
                  then Lit ''Position exposure limit exceeded for ''
                  else Lit ''Total exposure limit exceeded: ''))"
    if "equity \<noteq> 0 \<or> rate_limited"
  proof (cases rate_limited)
    case True
    then show ?thesis
      using rate res by (auto simp add: can_place_order_def crl Let_def)
  next
    case False
    with that have "equity \<noteq> 0" by simp
    then show ?thesis
      using False rate res pe te by (simp add: can_place_order_def crl Let_def)
  qed
  have raises: "res = Inl ZeroDivisionError" if "equity = 0 \<and> \<not> rate_limited"
    using that rate res by (simp add: can_place_order_def crl Let_def)
  have same: "position_exposures (snd (can_place_order rl now symb sd position_value equity))
           = position_exposures rl"
    by (simp add: can_place_order_def crl Let_def)
  from limited raises same show ?thesis by blast
qed

theorem can_place_order_rejects_exactly_witness:
  "fst (can_place_order default_limits 0 ''BTC/USDT'' ''buy'' 2500 10000) = Inr (True, []) \<and>
   map_sum id fst (fst (can_place_order default_limits 0 ''BTC/USDT'' ''buy'' 3000 10000)) = Inr False \<and>
   map_sum id fst (fst (can_place_order exposed_limits 0 ''SOL/USDT'' ''buy'' 2000 10000)) = Inr False \<and>
   map_sum id fst (fst (can_place_order busy_limits 30 ''SOL/USDT'' ''buy'' 100 10000)) = Inr False \<and>
   fst (can_place_order default_limits 0 ''BTC/USDT'' ''buy'' 2500 0) = Inl ZeroDivisionError"
proof -
  have d: "trade_history default_limits = []" "position_exposures default_limits = []"
    "max_trades_per_minute default_limits = 6" "max_trades_per_day default_limits = 1200"
    "max_position_exposure_pct default_limits = 25 / 100"
    "max_total_exposure_pct default_limits = 80 / 100"
    by (simp_all add: default_limits_def init_limits_def)
  have e: "trade_history exposed_limits = []"
    "position_exposures exposed_limits = [(''BTC/USDT'', 4000), (''ETH/USDT'', 3000)]"
    "max_trades_per_minute exposed_limits = 6" "max_trades_per_day exposed_limits = 1200"
    "max_position_exposure_pct exposed_limits = 25 / 100"
    "max_total_exposure_pct exposed_limits = 80 / 100"
    by (simp_all add: exposed_limits_def default_limits_def init_limits_def
        update_position_exposure_def)
  have b: "map tr_timestamp (trade_history busy_limits) = [10, 20]"
    "max_trades_per_minute busy_limits = 2"
    by (simp_all add: busy_limits_def init_limits_def record_trade_def)
  have b2: "length (filter (\<lambda>t. 30 - timedelta_minutes 1 < tr_timestamp t) (trade_history busy_limits)) = 2"
    by (simp add: busy_limits_def init_limits_def record_trade_def timedelta_minutes_def)
  show ?thesis
    using can_place_order_rejects_exactly [where rl = default_limits and now = 0
        and symb = "''BTC/USDT''" and sd = "''buy''" and position_value = 2500 and equity = 10000,
        OF refl refl refl refl refl refl]
      can_place_order_rejects_exactly [where rl = default_limits and now = 0
        and symb = "''BTC/USDT''" and sd = "''buy''" and position_value = 3000 and equity = 10000,
        OF refl refl refl refl refl refl]
      can_place_order_rejects_exactly [where rl = exposed_limits and now = 0
        and symb = "''SOL/USDT''" and sd = "''buy''" and position_value = 2000 and equity = 10000,
        OF refl refl refl refl refl refl]
      can_place_order_rejects_exactly [where rl = busy_limits and now = 30
        and symb = "''SOL/USDT''" and sd = "''buy''" and position_value = 100 and equity = 10000,
        OF refl refl refl refl refl refl]
      can_place_order_rejects_exactly [where rl = default_limits and now = 0
        and symb = "''BTC/USDT''" and sd = "''buy''" and position_value = 2500 and equity = 0,
        OF refl refl refl refl refl refl]
      d e b b2
    by (auto simp add: dict_get_def dict_values_sum_def)
qed

section \<open>Stop levels\<close>

text \<open>
  C10.  A stop loss of 0.0 is treated as an absent one, and so is a take profit of 0.0:
  \<open>check_stops\<close> gives the same answer for the level \<open>Some 0\<close> as for \<open>None\<close>, at every
  price and for both sides.  With a stop loss of 0.0 the answer is decided by the take
  profit alone, so the position is never reported as stopped out, a short one included,
  although every price from 0 upwards satisfies \<open>current_price >= stop_loss\<close>.
\<close>

theorem check_stops_zero_is_absent:
  "check_stops (stops(pid \<mapsto> st\<lparr>stop_loss := Some 0\<rparr>)) pid px sd
     = check_stops (stops(pid \<mapsto> st\<lparr>stop_loss := None\<rparr>)) pid px sd \<and>
   check_stops (stops(pid \<mapsto> st\<lparr>take_profit := Some 0\<rparr>)) pid px sd
     = check_stops (stops(pid \<mapsto> st\<lparr>take_profit := None\<rparr>)) pid px sd \<and>
   (stops pid = Some st \<and> stop_loss st = Some 0 \<longrightarrow>
      check_stops stops pid px sd =
        (if truthy (take_profit st) \<and>
            (if sd = ''buy'' then the (take_profit st) \<le> px else px \<le> the (take_profit st))
         then (True, Some [Lit ''Take profit hit: '', FFloat px,
                           Lit (if sd = ''buy'' then '' >= '' else '' <= ''),
                           FFloat (the (take_profit st))])
         else (False, None)))"
  by (auto simp add: check_stops_def truthy_def)

theorem check_stops_zero_is_absent_witness:
  "stop_loss (the (short_zero_stop ''p1'')) = Some 0 \<and>
   (0::real) \<le> 50 \<and> check_stops short_zero_stop ''p1'' 50 ''sell'' = (False, None) \<and>
   check_stops short_zero_stop ''p1'' 50 ''buy'' = (False, None)"
  using check_stops_zero_is_absent [of Map.empty "''p1''" "the (short_zero_stop ''p1'')" 50 "''sell''"]
    check_stops_zero_is_absent [of short_zero_stop "''p1''" "the (short_zero_stop ''p1'')" 50 "''sell''"]
    check_stops_zero_is_absent [of short_zero_stop "''p1''" "the (short_zero_stop ''p1'')" 50 "''buy''"]
  by (auto simp add: short_zero_stop_def set_stops_def truthy_def)

section \<open>Rebalancing\<close>






section \<open>Trend strategy\<close>





end
